theory Spec2Isabelle
  imports Complex_Main "HOL-Library.AList"
begin

section \<open>Values of the host language\<close>

text \<open>
  The value \<open>JSON.parse\<close> returns. An object is the list of its own properties in
  enumeration order, each key once; a number is the value of the double. JavaScript's
  \<open>undefined\<close> is \<open>None\<close> of \<open>json option\<close>. Strings are lists of 8-bit characters.
\<close>

datatype json =
    JNull
  | JBool bool
  | JNum real
  | JStr string
  | JArr "json list"
  | JObj "(string \<times> json) list"

datatype js_error = SyntaxError | TypeError | RangeError | StorageError

text \<open>Decimal rendering of a non-negative integer, as a template literal and
  \<open>Number.prototype.toString\<close> give it (below \<open>10^21\<close>).\<close>

definition digit_char :: "nat \<Rightarrow> char" where
  "digit_char d = ''0123456789'' ! d"

fun show_nat :: "nat \<Rightarrow> string" where
  "show_nat n =
     (if n < 10 then [digit_char n]
      else show_nat (n div 10) @ [digit_char (n mod 10)])"

declare show_nat.simps [simp del]

text \<open>
  A number the program holds where its exact value matters: \<open>NaN\<close>, an integer-valued
  double, or an infinity (\<open>True\<close> for the negative one).
\<close>

datatype number = NaN | Finite int | Infinite bool

text \<open>
  The double nearest to a non-negative integer, ties to the even significand: exact
  below \<open>2^53\<close>; above, the integer keeps its 53 leading bits, rounded; \<open>None\<close> is the
  infinity that rounding to \<open>2^1024\<close> gives.
\<close>

fun bit_length :: "nat \<Rightarrow> nat" where
  "bit_length n = (if n = 0 then 0 else Suc (bit_length (n div 2)))"

declare bit_length.simps [simp del]

definition round_double :: "nat \<Rightarrow> nat option" where
  "round_double m =
     (if m < 2 ^ 53 then Some m
      else
        (let e = bit_length m - 53;
             q = m div 2 ^ e;
             r = m mod 2 ^ e;
             h = 2 ^ (e - 1);
             q' = (if h < r \<or> (r = h \<and> odd q) then q + 1 else q)
         in if 2 ^ 1024 \<le> q' * 2 ^ e then None else Some (q' * 2 ^ e)))"

text \<open>
  The port check \<open>listen\<close> makes before anything else: a number is accepted when it is
  an integer from 0 to 65535, and the call throws a \<open>RangeError\<close> otherwise.
\<close>

fun legal_port :: "number \<Rightarrow> nat option" where
  "legal_port (Finite i) = (if 0 \<le> i \<and> i \<le> 65535 then Some (nat i) else None)"
| "legal_port NaN = None"
| "legal_port (Infinite b) = None"

text \<open>ToBoolean.\<close>

fun js_truthy :: "json option \<Rightarrow> bool" where
  "js_truthy None = False"
| "js_truthy (Some JNull) = False"
| "js_truthy (Some (JBool b)) = b"
| "js_truthy (Some (JNum x)) = (x \<noteq> 0)"
| "js_truthy (Some (JStr s)) = (s \<noteq> [])"
| "js_truthy (Some (JArr xs)) = True"
| "js_truthy (Some (JObj kvs)) = True"

text \<open>
  Reading one of the properties \<open>sessionId\<close>, \<open>type\<close>, \<open>content\<close>, \<open>channel\<close> of a
  parsed value: reading a property of \<open>null\<close> throws, an object yields its own
  property, and booleans, numbers, strings and arrays have no property of these names.
\<close>

fun get_prop :: "json \<Rightarrow> string \<Rightarrow> js_error + json option" where
  "get_prop JNull k = Inl TypeError"
| "get_prop (JObj kvs) k = Inr (map_of kvs k)"
| "get_prop v k = Inr None"

text \<open>Own enumerable properties copied by an object spread \<open>{...v}\<close>.\<close>

fun index_keys :: "nat \<Rightarrow> json list \<Rightarrow> (string \<times> json) list" where
  "index_keys i [] = []"
| "index_keys i (x # xs) = (show_nat i, x) # index_keys (Suc i) xs"

fun spread :: "json \<Rightarrow> (string \<times> json) list" where
  "spread (JObj kvs) = kvs"
| "spread (JArr xs) = index_keys 0 xs"
| "spread (JStr s) = index_keys 0 (map (\<lambda>c. JStr [c]) s)"
| "spread v = []"

section \<open>Session registry and the effects of a handler\<close>

text \<open>Sockets and servers are handles; two handles are the same object iff equal.\<close>

record IsolatedSession =
  ws :: nat
  server :: nat
  ip :: string
  deviceId :: string

type_synonym registry = "string \<rightharpoonup> IsolatedSession"

text \<open>The calls a handler makes on the outside world, in program order. \<open>Send\<close> is
  \<open>ws.send(JSON.stringify(v))\<close>, \<open>SendData\<close> is \<open>ws.send\<close> of a received payload as it is;
  \<open>Listen\<close> is a \<open>listen\<close> call that returned, with its server and port (port 0 asks
  the system for a free port; whether the system grants a port is outside this theory).
  \<open>UnhandledRejection\<close> is a promise rejected with no handler attached to it, which the
  runtime reports (Node's default is to end the process with exit code 1).\<close>

datatype effect =
    Send nat json
  | SendData nat string
  | Close nat nat string
  | GetChatHistory string
  | SaveChatMessage string "json option"
  | ConsoleLog string "json option"
  | ConsoleError js_error
  | UnhandledRejection
  | Listen nat nat
  | ServerClose nat
  | Fork "string list"
  | Kill nat
  | Exit nat

text \<open>How the external \<open>saveChatMessage\<close> call ends: it returns a promise that is
  later fulfilled or rejected, or it throws at the call. The handler attaches nothing to
  the promise, so its rejection comes after the handler has returned and is unhandled.\<close>

datatype save_outcome = SaveFulfilled | SaveRejected | SaveThrows

fun on_save_settled :: "save_outcome \<Rightarrow> effect list" where
  "on_save_settled SaveRejected = [UnhandledRejection]"
| "on_save_settled SaveFulfilled = []"
| "on_save_settled SaveThrows = []"

text \<open>How the external \<open>getChatHistory\<close> call ends: it returns its promise, or it throws
  at the call.\<close>

datatype call_outcome = CallReturns | CallThrows

datatype 'a promise = Pending | Fulfilled 'a | Rejected

text \<open>The variables the handlers of one connection close over.\<close>

record connection =
  c_ws :: nat
  c_sessionId :: string
  c_deviceId :: string
  c_ip :: string

record upgrade_request =
  remoteAddress :: "string option"
  sec_websocket_key :: "string option"

section \<open>Connection upgrade\<close>

definition request_ip :: "upgrade_request \<Rightarrow> string" where
  "request_ip req =
     (case remoteAddress req of
        None \<Rightarrow> ''unknown''
      | Some a \<Rightarrow> if a = [] then ''unknown'' else a)"

definition request_deviceId :: "upgrade_request \<Rightarrow> nat \<Rightarrow> string" where
  "request_deviceId req now =
     (case sec_websocket_key req of
        None \<Rightarrow> request_ip req @ ''-'' @ show_nat now
      | Some k \<Rightarrow> if k = [] then request_ip req @ ''-'' @ show_nat now else k)"

definition new_connection :: "upgrade_request \<Rightarrow> nat \<Rightarrow> nat \<Rightarrow> nat \<Rightarrow> connection" where
  "new_connection req sock t_upgrade t_conn =
     \<lparr> c_ws = sock,
       c_sessionId = request_deviceId req t_upgrade @ ''-'' @ show_nat t_conn,
       c_deviceId = request_deviceId req t_upgrade,
       c_ip = request_ip req \<rparr>"

definition session_init_frame :: "connection \<Rightarrow> json" where
  "session_init_frame c =
     JObj [(''type'', JStr ''session_init''),
           (''sessionId'', JStr (c_sessionId c)),
           (''deviceId'', JStr (c_deviceId c)),
           (''ipAddress'', JStr (c_ip c))]"

definition welcome_frame :: "connection \<Rightarrow> json" where
  "welcome_frame c =
     JObj [(''type'', JStr ''connection''),
           (''deviceId'', JStr (c_deviceId c)),
           (''message'', JStr ''Connected to Ecosense WebSocket Server'')]"

definition history_frame :: "json \<Rightarrow> json" where
  "history_frame history = JObj [(''type'', JStr ''history''), (''messages'', history)]"

text \<open>
  The \<open>connection\<close> handler of the isolated server. The last component is the exception
  that leaves the handler: if \<open>getChatHistory\<close> throws at the call, the handler ends there,
  after the registration and the two frames, and attaches neither the message handler
  nor the close handler.
\<close>

definition on_connection ::
  "registry \<Rightarrow> upgrade_request \<Rightarrow> nat \<Rightarrow> nat \<Rightarrow> nat \<Rightarrow> nat \<Rightarrow> call_outcome
    \<Rightarrow> registry \<times> connection \<times> effect list \<times> js_error option" where
  "on_connection reg req sock srv t_upgrade t_conn hc =
     (let c = new_connection req sock t_upgrade t_conn
      in (reg(c_sessionId c \<mapsto>
                \<lparr> ws = sock, server = srv, ip = c_ip c, deviceId = c_deviceId c \<rparr>),
          c,
          [ConsoleLog ''WebSocket client connected'' None,
           Send sock (session_init_frame c),
           Send sock (welcome_frame c),
           GetChatHistory (c_deviceId c)],
          if hc = CallThrows then Some StorageError else None))"

text \<open>
  The history promise has one reaction, \<open>then\<close> with a fulfilment callback and nothing
  else: fulfilled, the callback sends the frame; rejected, nothing handles the rejection.
\<close>

fun on_history :: "connection \<Rightarrow> json promise \<Rightarrow> effect list" where
  "on_history c (Fulfilled history) = [Send (c_ws c) (history_frame history)]"
| "on_history c Pending = []"
| "on_history c Rejected = [UnhandledRejection]"

section \<open>Message router\<close>

definition registry_has :: "registry \<Rightarrow> json option \<Rightarrow> bool" where
  "registry_has reg v = (case v of Some (JStr s) \<Rightarrow> reg s \<noteq> None | _ \<Rightarrow> False)"

definition echo_frame :: "connection \<Rightarrow> string \<Rightarrow> json \<Rightarrow> json" where
  "echo_frame c stamp parsed =
     JObj (AList.update ''timestamp'' (JStr stamp)
            (AList.update ''sessionId'' (JStr (c_sessionId c)) (spread parsed)))"

text \<open>
  The log line is a template literal, which converts the channel to a string first. For
  a parsed value the conversion throws in one case: an object with an own \<open>toString\<close>
  property, which is not callable, while \<open>valueOf\<close>, own or inherited, yields no primitive.
  An array is joined, converting each element but \<open>null\<close>; \<open>undefined\<close> and the
  primitives convert. \<open>JSON.stringify\<close> leaves a property whose value is \<open>undefined\<close> out.
\<close>

fun tostring_throws :: "json \<Rightarrow> bool" where
  "tostring_throws (JObj kvs) = (map_of kvs ''toString'' \<noteq> None)"
| "tostring_throws (JArr xs) = (\<exists>x \<in> set xs. tostring_throws x)"
| "tostring_throws v = False"

definition handleSubscription :: "nat \<Rightarrow> json \<Rightarrow> effect list \<times> js_error option" where
  "handleSubscription sock message =
     (case get_prop message ''channel'' of
        Inl e \<Rightarrow> ([], Some e)
      | Inr channel \<Rightarrow>
          if (case channel of None \<Rightarrow> False | Some ch \<Rightarrow> tostring_throws ch)
          then ([], Some TypeError)
          else
          ([ConsoleLog ''Client subscribed to'' channel,
            Send sock (JObj ((''type'', JStr ''subscribed'') #
                             (case channel of None \<Rightarrow> [] | Some ch \<Rightarrow> [(''channel'', ch)])))],
           None))"

text \<open>The body of the \<open>try\<close> block after a successful parse: the effects made, and the
  exception that ended it, if any.\<close>

definition route :: "registry \<Rightarrow> connection \<Rightarrow> string \<Rightarrow> save_outcome \<Rightarrow> json
    \<Rightarrow> effect list \<times> js_error option" where
  "route reg c stamp sv parsed =
     (case get_prop parsed ''sessionId'' of
        Inl e \<Rightarrow> ([], Some e)
      | Inr sid \<Rightarrow>
          if \<not> js_truthy sid \<or> \<not> registry_has reg sid
          then ([Close (c_ws c) 1008 ''Invalid session''], None)
          else
            (case get_prop parsed ''type'' of
               Inl e \<Rightarrow> ([], Some e)
             | Inr ty \<Rightarrow>
                 if ty = Some (JStr ''chat'')
                 then
                   (case get_prop parsed ''content'' of
                      Inl e \<Rightarrow> ([Send (c_ws c) (echo_frame c stamp parsed)], Some e)
                    | Inr content \<Rightarrow>
                        ([Send (c_ws c) (echo_frame c stamp parsed),
                          SaveChatMessage (c_deviceId c) content],
                         if sv = SaveThrows then Some StorageError else None))
                 else if ty = Some (JStr ''subscribe'')
                 then handleSubscription (c_ws c) parsed
                 else ([ConsoleLog ''Unknown message type:'' ty], None)))"

text \<open>The \<open>message\<close> handler: \<open>None\<close> is a frame on which \<open>JSON.parse\<close> throws.\<close>

definition on_message :: "registry \<Rightarrow> connection \<Rightarrow> string \<Rightarrow> save_outcome \<Rightarrow> json option
    \<Rightarrow> effect list" where
  "on_message reg c stamp sv frame =
     (case frame of
        None \<Rightarrow> [ConsoleError SyntaxError]
      | Some parsed \<Rightarrow>
          (case route reg c stamp sv parsed of
             (effs, None) \<Rightarrow> effs
           | (effs, Some e) \<Rightarrow> effs @ [ConsoleError e]))"

definition on_close :: "registry \<Rightarrow> connection \<Rightarrow> registry \<times> effect list" where
  "on_close reg c =
     (reg(c_sessionId c := None), [ConsoleLog ''WebSocket client disconnected'' None])"

text \<open>The events of the shared listener, and the registry they leave behind. A
  \<open>Message\<close> or \<open>SocketClose\<close> event is a run of the handler that a connection attached;
  \<open>History\<close> and \<open>SaveSettled\<close> are the promises settling, after the handler that made
  the call has returned.\<close>

datatype event =
    Connection upgrade_request nat nat nat nat call_outcome
  | History connection "json promise"
  | Message connection string save_outcome "json option"
  | SaveSettled save_outcome
  | SocketClose connection

fun step :: "registry \<Rightarrow> event \<Rightarrow> registry \<times> effect list" where
  "step reg (Connection req sock srv t_upgrade t_conn hc) =
     (case on_connection reg req sock srv t_upgrade t_conn hc of
        (reg', c, effs, exn) \<Rightarrow> (reg', effs))"
| "step reg (History c h) = (reg, on_history c h)"
| "step reg (Message c stamp sv frame) = (reg, on_message reg c stamp sv frame)"
| "step reg (SaveSettled sv) = (reg, on_save_settled sv)"
| "step reg (SocketClose c) = on_close reg c"

fun run :: "registry \<Rightarrow> event list \<Rightarrow> registry \<times> effect list" where
  "run reg [] = (reg, [])"
| "run reg (e # es) =
     (case step reg e of (reg', effs) \<Rightarrow>
        (case run reg' es of (reg'', effs') \<Rightarrow> (reg'', effs @ effs')))"

section \<open>Device tracker, port allocation and the idle reaper\<close>

record DeviceConnection =
  dc_deviceId :: string
  dc_port :: nat
  connectedAt :: int
  lastActive :: int

record IsolatedProcess =
  process :: nat
  ip_port :: nat
  ip_deviceId :: string

record DeviceServer =
  httpServer :: nat
  wss :: nat
  ds_ws :: "nat option"

text \<open>The module's maps and its counter. \<open>activeConnections\<close> keeps the insertion order
  the sweep iterates in.\<close>

record tracker =
  activeConnections :: "(string \<times> DeviceConnection) list"
  activeProcesses :: "string \<rightharpoonup> IsolatedProcess"
  deviceServers :: "string \<rightharpoonup> DeviceServer"
  portCounter :: nat

definition initial_tracker :: tracker where
  "initial_tracker =
     \<lparr> activeConnections = [], activeProcesses = Map.empty, deviceServers = Map.empty,
       portCounter = 3000 \<rparr>"

text \<open>\<open>n + 1\<close> on an integer-valued double between 0 and \<open>2^53\<close>: exact below \<open>2^53\<close>,
  and \<open>2^53 + 1\<close> rounds back to \<open>2^53\<close>.\<close>

definition js_succ :: "nat \<Rightarrow> nat" where
  "js_succ n = (if n < 2 ^ 53 then n + 1 else n)"

subsection \<open>In-process isolation\<close>

text \<open>\<open>createDeviceIsolatedServer\<close> returns a closure over its own counter, a local
  variable that shadows the module's \<open>portCounter\<close>. The base port is a non-negative
  integer.\<close>

record device_isolated_server =
  mainServer :: nat
  local_portCounter :: nat

definition createDeviceIsolatedServer :: "nat \<Rightarrow> nat \<Rightarrow> device_isolated_server" where
  "createDeviceIsolatedServer main basePort =
     \<lparr> mainServer = main, local_portCounter = basePort \<rparr>"

text \<open>\<open>createForDevice\<close> takes the port and advances the counter first; it returns the
  port if \<open>httpServer.listen\<close> accepts it, and the exception of \<open>listen\<close> leaves it
  otherwise, the counter already advanced.\<close>

definition createForDevice ::
  "device_isolated_server \<Rightarrow> string \<Rightarrow> nat
    \<Rightarrow> (js_error + nat) \<times> device_isolated_server \<times> effect list" where
  "createForDevice srv dev http =
     (let port = local_portCounter srv;
          srv' = srv\<lparr>local_portCounter := js_succ port\<rparr>
      in (case legal_port (Finite (int port)) of
            None \<Rightarrow> (Inl RangeError, srv', [])
          | Some p \<Rightarrow> (Inr port, srv', [Listen http p])))"

text \<open>The handlers \<open>createForDevice\<close> installs, and \<open>close\<close> of the handle it returns.\<close>

definition device_connection ::
  "tracker \<Rightarrow> string \<Rightarrow> nat \<Rightarrow> nat \<Rightarrow> nat \<Rightarrow> nat \<Rightarrow> int \<Rightarrow> int \<Rightarrow> tracker" where
  "device_connection tr dev port http w sock t1 t2 =
     tr\<lparr> deviceServers := (deviceServers tr)(dev \<mapsto> \<lparr> httpServer = http, wss = w, ds_ws = Some sock \<rparr>),
         activeConnections :=
           AList.update dev
             \<lparr> dc_deviceId = dev, dc_port = port, connectedAt = t1, lastActive = t2 \<rparr>
             (activeConnections tr) \<rparr>"

definition device_message :: "tracker \<Rightarrow> nat \<Rightarrow> string \<Rightarrow> tracker \<times> effect list" where
  "device_message tr sock message = (tr, [SendData sock message])"

definition device_socket_close :: "tracker \<Rightarrow> string \<Rightarrow> tracker" where
  "device_socket_close tr dev =
     tr\<lparr> activeConnections := AList.delete dev (activeConnections tr) \<rparr>"

definition device_handle_close :: "tracker \<Rightarrow> string \<Rightarrow> nat \<Rightarrow> tracker \<times> effect list" where
  "device_handle_close tr dev http =
     (tr\<lparr> deviceServers := (deviceServers tr)(dev := None) \<rparr>, [ServerClose http])"

subsection \<open>Out-of-process isolation\<close>

definition createIsolatedProcess :: "tracker \<Rightarrow> string \<Rightarrow> nat \<Rightarrow> nat \<times> tracker \<times> effect list" where
  "createIsolatedProcess tr dev worker =
     (let port = portCounter tr
      in (port,
          tr\<lparr> portCounter := js_succ port,
              activeProcesses :=
                (activeProcesses tr)(dev \<mapsto> \<lparr> process = worker, ip_port = port, ip_deviceId = dev \<rparr>) \<rparr>,
          [Fork [''--device-id'', dev, ''--port'', show_nat port]]))"

definition worker_exit :: "tracker \<Rightarrow> string \<Rightarrow> tracker" where
  "worker_exit tr dev = tr\<lparr> activeProcesses := (activeProcesses tr)(dev := None) \<rparr>"

definition disconnect :: "nat \<Rightarrow> effect list" where
  "disconnect worker = [Kill worker]"

subsection \<open>Idle reaper\<close>

text \<open>
  \<open>deviceServers.get(deviceId)?.close()\<close>: the optional chain stops only when the map has
  no entry. An entry is the object \<open>{ httpServer, wss, ws }\<close>, which has no \<open>close\<close>
  property, so calling it throws.
\<close>

definition close_tracked :: "DeviceServer option \<Rightarrow> js_error option" where
  "close_tracked entry = (case entry of None \<Rightarrow> None | Some srv \<Rightarrow> Some TypeError)"

text \<open>The sweep visits the entries in insertion order and deletes only the entry it
  is at; an exception leaves the loop with the deletions made so far.\<close>

fun cleanup_loop :: "int \<Rightarrow> (string \<times> DeviceConnection) list \<Rightarrow> tracker
    \<Rightarrow> tracker \<times> js_error option" where
  "cleanup_loop now [] tr = (tr, None)"
| "cleanup_loop now ((dev, conn) # rest) tr =
     (if now - lastActive conn > 30 * 60 * 1000
      then (case close_tracked (deviceServers tr dev) of
              Some e \<Rightarrow> (tr, Some e)
            | None \<Rightarrow>
                cleanup_loop now rest
                  (tr\<lparr> activeConnections := AList.delete dev (activeConnections tr) \<rparr>))
      else cleanup_loop now rest tr)"

definition cleanupInactiveDevices :: "int \<Rightarrow> tracker \<Rightarrow> tracker \<times> js_error option" where
  "cleanupInactiveDevices now tr = cleanup_loop now (activeConnections tr) tr"

section \<open>Worker process\<close>

text \<open>\<open>Array.prototype.indexOf\<close>: the first position of the element, or \<open>-1\<close>.\<close>

fun indexOf :: "string list \<Rightarrow> string \<Rightarrow> int" where
  "indexOf [] x = -1"
| "indexOf (y # ys) x =
     (if y = x then 0 else (let i = indexOf ys x in if i < 0 then -1 else i + 1))"

text \<open>\<open>args[i]\<close>: \<open>undefined\<close> out of range.\<close>

definition arg_at :: "string list \<Rightarrow> int \<Rightarrow> string option" where
  "arg_at args i = (if 0 \<le> i \<and> i < int (length args) then Some (args ! nat i) else None)"

text \<open>
  \<open>parseInt\<close> with no radix: leading white space is skipped, then an optional sign,
  then \<open>0x\<close> or \<open>0X\<close> selects radix 16, then the longest run of digits of the radix is
  read; no digit gives \<open>NaN\<close>. The result is the double nearest to the integer read, with
  the sign. \<open>undefined\<close> is read as the string \<open>undefined\<close>. White space is the white
  space of the 8-bit characters.
\<close>

definition is_space :: "char \<Rightarrow> bool" where
  "is_space c = (c \<in> set [CHR 0x09, CHR 0x0A, CHR 0x0B, CHR 0x0C, CHR 0x0D, CHR 0x20, CHR 0xA0])"

definition digit_of :: "char \<Rightarrow> nat option" where
  "digit_of c =
     (let n = (of_char c :: nat)
      in if 48 \<le> n \<and> n \<le> 57 then Some (n - 48)
         else if 97 \<le> n \<and> n \<le> 122 then Some (n - 87)
         else if 65 \<le> n \<and> n \<le> 90 then Some (n - 55)
         else None)"

definition in_radix :: "nat \<Rightarrow> char \<Rightarrow> bool" where
  "in_radix r c = (case digit_of c of None \<Rightarrow> False | Some d \<Rightarrow> d < r)"

definition digits_value :: "nat \<Rightarrow> string \<Rightarrow> nat" where
  "digits_value r z = foldl (\<lambda>a c. a * r + (case digit_of c of None \<Rightarrow> 0 | Some d \<Rightarrow> d)) 0 z"

definition parseInt :: "string option \<Rightarrow> number" where
  "parseInt arg =
     (let s = dropWhile is_space (case arg of None \<Rightarrow> ''undefined'' | Some a \<Rightarrow> a);
          neg = (take 1 s = ''-'');
          s1 = (if take 1 s = ''-'' \<or> take 1 s = ''+'' then drop 1 s else s);
          hex = (take 2 s1 = ''0x'' \<or> take 2 s1 = ''0X'');
          r = (if hex then 16 else 10);
          s2 = (if hex then drop 2 s1 else s1);
          z = takeWhile (in_radix r) s2
      in if z = [] then NaN
         else (case round_double (digits_value r z) of
                 None \<Rightarrow> Infinite neg
               | Some d \<Rightarrow> Finite ((if neg then -1 else 1) * int d)))"

record worker =
  w_deviceId :: "string option"
  w_port :: nat
  w_server :: nat

text \<open>
  The top level of the worker script; \<open>argv\<close> is \<open>process.argv\<close>. The script calls
  \<open>server.listen(port)\<close> before it installs the SIGTERM handler: if \<open>listen\<close> refuses the
  port, its exception leaves the script (the process ends with exit code 1) and there is
  no worker to receive frames or signals.
\<close>

definition worker_main :: "string list \<Rightarrow> nat \<Rightarrow> effect list \<times> (js_error + worker)" where
  "worker_main argv http =
     (let args = drop 2 argv;
          dev = arg_at args (indexOf args ''--device-id'' + 1);
          port = parseInt (arg_at args (indexOf args ''--port'' + 1))
      in (case legal_port port of
            None \<Rightarrow>
              ([ConsoleLog ''Starting isolated process for'' (map_option JStr dev)],
               Inl RangeError)
          | Some p \<Rightarrow>
              ([ConsoleLog ''Starting isolated process for'' (map_option JStr dev),
                Listen http p],
               Inr \<lparr> w_deviceId = dev, w_port = p, w_server = http \<rparr>)))"

definition worker_listening :: "worker \<Rightarrow> effect list" where
  "worker_listening w = [ConsoleLog ''Isolated process running'' (map_option JStr (w_deviceId w))]"

definition worker_connection :: "worker \<Rightarrow> nat \<Rightarrow> effect list" where
  "worker_connection w sock = [ConsoleLog ''Connection from device'' (map_option JStr (w_deviceId w))]"

definition worker_message :: "worker \<Rightarrow> nat \<Rightarrow> string \<Rightarrow> effect list" where
  "worker_message w sock message =
     [ConsoleLog ''Received from'' (Some (JStr message)),
      SendData sock message,
      ConsoleLog ''Echoed back to'' (map_option JStr (w_deviceId w))]"

definition worker_sigterm :: "worker \<Rightarrow> effect list" where
  "worker_sigterm w =
     [ConsoleLog ''Terminating process for'' (map_option JStr (w_deviceId w)),
      ServerClose (w_server w),
      Exit 0]"

section \<open>Traces of the tracker\<close>

text \<open>Everything that touches the tracker: the handlers of an in-process device server,
  the handle's \<open>close\<close>, a spawn, a worker's exit and a sweep at a given time. A message
  event carries the time it arrives at, which its handler does not read.\<close>

datatype tracker_event =
    DeviceConnected string nat nat nat nat int int
  | DeviceMessage nat string int
  | DeviceSocketClosed string
  | DeviceHandleClosed string nat
  | ProcessSpawned string nat
  | WorkerExited string
  | Sweep int

fun tracker_step :: "tracker \<Rightarrow> tracker_event \<Rightarrow> tracker" where
  "tracker_step tr (DeviceConnected dev port http w sock t1 t2) =
     device_connection tr dev port http w sock t1 t2"
| "tracker_step tr (DeviceMessage sock message t) = fst (device_message tr sock message)"
| "tracker_step tr (DeviceSocketClosed dev) = device_socket_close tr dev"
| "tracker_step tr (DeviceHandleClosed dev http) = fst (device_handle_close tr dev http)"
| "tracker_step tr (ProcessSpawned dev worker) = fst (snd (createIsolatedProcess tr dev worker))"
| "tracker_step tr (WorkerExited dev) = worker_exit tr dev"
| "tracker_step tr (Sweep now) = fst (cleanupInactiveDevices now tr)"

text \<open>The ports handed out by the spawns of a trace, in order.\<close>

fun spawn_ports :: "tracker \<Rightarrow> tracker_event list \<Rightarrow> nat list" where
  "spawn_ports tr [] = []"
| "spawn_ports tr (ProcessSpawned dev worker # es) =
     fst (createIsolatedProcess tr dev worker)
       # spawn_ports (tracker_step tr (ProcessSpawned dev worker)) es"
| "spawn_ports tr (e # es) = spawn_ports (tracker_step tr e) es"

text \<open>The ports handed out by successive \<open>createForDevice\<close> calls on one instance: those
  of the calls that return.\<close>

fun device_ports :: "device_isolated_server \<Rightarrow> (string \<times> nat) list \<Rightarrow> nat list" where
  "device_ports srv [] = []"
| "device_ports srv ((dev, http) # ds) =
     (case fst (createForDevice srv dev http) of Inl e \<Rightarrow> [] | Inr port \<Rightarrow> [port])
       @ device_ports (fst (snd (createForDevice srv dev http))) ds"

section \<open>Reading effect lists\<close>

definition sends :: "effect list \<Rightarrow> effect list" where
  "sends effs =
     filter (\<lambda>e. case e of Send s v \<Rightarrow> True | SendData s d \<Rightarrow> True | _ \<Rightarrow> False) effs"

definition closes :: "effect list \<Rightarrow> effect list" where
  "closes effs = filter (\<lambda>e. case e of Close s n r \<Rightarrow> True | _ \<Rightarrow> False) effs"

definition listens :: "effect list \<Rightarrow> effect list" where
  "listens effs = filter (\<lambda>e. case e of Listen s p \<Rightarrow> True | _ \<Rightarrow> False) effs"

fun tracker_run :: "tracker \<Rightarrow> tracker_event list \<Rightarrow> tracker" where
  "tracker_run tr [] = tr"
| "tracker_run tr (e # es) = tracker_run (tracker_step tr e) es"

fun sent_type :: "effect \<Rightarrow> json option" where
  "sent_type (Send s (JObj kvs)) = map_of kvs ''type''"
| "sent_type e = None"

section \<open>Sample inputs\<close>

definition req1 :: upgrade_request where
  "req1 = \<lparr> remoteAddress = Some ''10.0.0.1'', sec_websocket_key = Some ''k1'' \<rparr>"

definition req2 :: upgrade_request where
  "req2 = \<lparr> remoteAddress = Some ''10.0.0.2'', sec_websocket_key = Some ''k2'' \<rparr>"

definition conn1 :: connection where
  "conn1 = new_connection req1 1 5 7"

definition conn2 :: connection where
  "conn2 = new_connection req2 2 6 8"

definition reg1 :: registry where
  "reg1 = fst (run Map.empty [Connection req1 1 11 5 7 CallReturns])"

definition reg12 :: registry where
  "reg12 =
     fst (run Map.empty
            [Connection req1 1 11 5 7 CallReturns, Connection req2 2 12 6 8 CallReturns])"

definition idle_tracker :: tracker where
  "idle_tracker =
     device_connection initial_tracker ''dev-a'' 4000 21 22 23 0 0"

definition chat1 :: json where
  "chat1 = JObj [(''type'', JStr ''chat''), (''sessionId'', JStr ''k1-7''),
                 (''content'', JStr ''hello'')]"

definition subscribe1 :: json where
  "subscribe1 = JObj [(''sessionId'', JStr ''k1-7''), (''type'', JStr ''subscribe''),
                      (''channel'', JStr ''alerts'')]"

section \<open>Properties of the session registry and the router\<close>

lemma show_nat_digit: "n < 10 \<Longrightarrow> show_nat n = [digit_char n]"
  by (simp add: show_nat.simps)

lemma new_session_id_nonempty: "c_sessionId (new_connection req sock t0 t1) \<noteq> []"
  by (simp add: new_connection_def)

lemma step_keys_nonempty:
  assumes "reg [] = None" shows "fst (step reg e) [] = None"
proof (cases e)
  case (Connection req sock srv t0 t1 hc)
  then show ?thesis using assms new_session_id_nonempty [of req sock t0 t1]
    by (simp add: on_connection_def Let_def)
next
  case (SocketClose c)
  then show ?thesis using assms by (simp add: on_close_def)
qed (use assms in simp_all)

lemma run_keys_nonempty: "reg [] = None \<Longrightarrow> fst (run reg es) [] = None"
proof (induction es arbitrary: reg)
  case Nil then show ?case by simp
next
  case (Cons e es)
  have "fst (step reg e) [] = None" using Cons.prems by (rule step_keys_nonempty)
  then have "fst (run (fst (step reg e)) es) [] = None" by (rule Cons.IH)
  then show ?case by (simp add: split_beta)
qed

lemma get_prop_object:
  assumes "get_prop parsed k = Inr (Some v)"
  obtains kvs where "parsed = JObj kvs" and "map_of kvs k = Some v"
  using assms by (cases parsed) auto

lemma chat_dispatch:
  assumes sid: "get_prop parsed ''sessionId'' = Inr (Some (JStr s))"
    and ne: "s \<noteq> []"
    and reg: "reg s \<noteq> None"
    and ty: "get_prop parsed ''type'' = Inr (Some (JStr ''chat''))"
  shows "\<exists>content. get_prop parsed ''content'' = Inr content \<and>
           on_message reg c stamp sv (Some parsed) =
             [Send (c_ws c) (echo_frame c stamp parsed), SaveChatMessage (c_deviceId c) content]
             @ (if sv = SaveThrows then [ConsoleError StorageError] else [])"
proof -
  obtain kvs where p: "parsed = JObj kvs" and k: "map_of kvs ''sessionId'' = Some (JStr s)"
    using sid by (rule get_prop_object)
  have t: "map_of kvs ''type'' = Some (JStr ''chat'')" using ty p by simp
  have "route reg c stamp sv parsed =
         ([Send (c_ws c) (echo_frame c stamp parsed),
           SaveChatMessage (c_deviceId c) (map_of kvs ''content'')],
          if sv = SaveThrows then Some StorageError else None)"
    using p k t ne reg by (simp add: route_def registry_has_def)
  then show ?thesis using p by (simp add: on_message_def)
qed

lemma echo_frame_props:
  assumes "parsed = JObj kvs"
  shows "get_prop (echo_frame c stamp parsed) ''sessionId'' = Inr (Some (JStr (c_sessionId c)))"
    and "get_prop (echo_frame c stamp parsed) ''timestamp'' = Inr (Some (JStr stamp))"
    and "k \<noteq> ''sessionId'' \<Longrightarrow> k \<noteq> ''timestamp'' \<Longrightarrow>
           get_prop (echo_frame c stamp parsed) k = get_prop parsed k"
  using assms by (simp_all add: echo_frame_def update_conv')

text \<open>
  C1. A \<open>chat\<close> frame whose session id is in the registry makes the router send exactly
  one frame, the echo, to the socket the frame arrived on, stamped with the connection's
  own session id and the server's timestamp, and call \<open>saveChatMessage\<close> with the
  connection's device id and the frame's content; the socket is not closed, and the
  frames sent are the same however the persistence call ends.
\<close>

theorem chat_echo_same_socket:
  assumes reach: "reg = fst (run Map.empty evs)"
    and sid: "get_prop parsed ''sessionId'' = Inr (Some (JStr s))"
    and reg: "reg s \<noteq> None"
    and ty: "get_prop parsed ''type'' = Inr (Some (JStr ''chat''))"
  shows "\<exists>content. get_prop parsed ''content'' = Inr content
       \<and> on_message reg c stamp sv (Some parsed) =
           [Send (c_ws c) (echo_frame c stamp parsed), SaveChatMessage (c_deviceId c) content]
           @ (if sv = SaveThrows then [ConsoleError StorageError] else [])
       \<and> sends (on_message reg c stamp sv (Some parsed)) =
           [Send (c_ws c) (echo_frame c stamp parsed)]
       \<and> sends (on_message reg c stamp SaveRejected (Some parsed)) =
           sends (on_message reg c stamp SaveFulfilled (Some parsed))
       \<and> sends (on_message reg c stamp SaveThrows (Some parsed)) =
           sends (on_message reg c stamp SaveFulfilled (Some parsed))
       \<and> closes (on_message reg c stamp sv (Some parsed)) = []
       \<and> get_prop (echo_frame c stamp parsed) ''sessionId'' = Inr (Some (JStr (c_sessionId c)))
       \<and> get_prop (echo_frame c stamp parsed) ''timestamp'' = Inr (Some (JStr stamp))
       \<and> get_prop (echo_frame c stamp parsed) ''type'' = Inr (Some (JStr ''chat''))
       \<and> get_prop (echo_frame c stamp parsed) ''content'' = Inr content"
proof -
  obtain kvs where p: "parsed = JObj kvs"
    using sid by (rule get_prop_object)
  have "fst (run Map.empty evs) [] = None" by (rule run_keys_nonempty) simp
  then have ne: "s \<noteq> []" using reach reg by auto
  have d: "\<And>sv'. \<exists>content. get_prop parsed ''content'' = Inr content \<and>
           on_message reg c stamp sv' (Some parsed) =
             [Send (c_ws c) (echo_frame c stamp parsed), SaveChatMessage (c_deviceId c) content]
             @ (if sv' = SaveThrows then [ConsoleError StorageError] else [])"
    using sid ne reg ty by (rule chat_dispatch)
  have s: "sends (on_message reg c stamp sv' (Some parsed)) =
           [Send (c_ws c) (echo_frame c stamp parsed)]" for sv'
  proof -
    from d [of sv'] obtain content where
      "on_message reg c stamp sv' (Some parsed) =
         [Send (c_ws c) (echo_frame c stamp parsed), SaveChatMessage (c_deviceId c) content]
         @ (if sv' = SaveThrows then [ConsoleError StorageError] else [])"
      by blast
    then show ?thesis by (simp add: sends_def)
  qed
  have cl: "closes (on_message reg c stamp sv (Some parsed)) = []"
  proof -
    from d [of sv] obtain content where
      "on_message reg c stamp sv (Some parsed) =
         [Send (c_ws c) (echo_frame c stamp parsed), SaveChatMessage (c_deviceId c) content]
         @ (if sv = SaveThrows then [ConsoleError StorageError] else [])"
      by blast
    then show ?thesis by (simp add: closes_def)
  qed
  have e1: "get_prop (echo_frame c stamp parsed) ''sessionId'' = Inr (Some (JStr (c_sessionId c)))"
    and e2: "get_prop (echo_frame c stamp parsed) ''timestamp'' = Inr (Some (JStr stamp))"
    and e3: "get_prop (echo_frame c stamp parsed) ''type'' = get_prop parsed ''type''"
    and e4: "get_prop (echo_frame c stamp parsed) ''content'' = get_prop parsed ''content''"
    using p by (simp_all add: echo_frame_props)
  from d [of sv] obtain content where c1: "get_prop parsed ''content'' = Inr content"
    and c2: "on_message reg c stamp sv (Some parsed) =
             [Send (c_ws c) (echo_frame c stamp parsed), SaveChatMessage (c_deviceId c) content]
             @ (if sv = SaveThrows then [ConsoleError StorageError] else [])"
    by blast
  have e3': "get_prop (echo_frame c stamp parsed) ''type'' = Inr (Some (JStr ''chat''))"
    using e3 ty by simp
  have e4': "get_prop (echo_frame c stamp parsed) ''content'' = Inr content"
    using e4 c1 by simp
  have s2: "sends (on_message reg c stamp SaveRejected (Some parsed)) =
           sends (on_message reg c stamp SaveFulfilled (Some parsed))"
    and s3: "sends (on_message reg c stamp SaveThrows (Some parsed)) =
           sends (on_message reg c stamp SaveFulfilled (Some parsed))"
    by (simp_all only: s)
  from c1 c2 s [of sv] s2 s3 cl e1 e2 e3' e4' show ?thesis by blast
qed

lemma reg12_k1: "reg12 ''k1-7'' = Some \<lparr> ws = 1, server = 11, ip = ''10.0.0.1'', deviceId = ''k1'' \<rparr>"
  by (simp add: reg12_def on_connection_def new_connection_def request_deviceId_def
      request_ip_def req1_def req2_def show_nat_digit digit_char_def Let_def)

theorem chat_echo_same_socket_witness:
  "on_message reg12 conn1 ''T'' SaveRejected (Some chat1) =
     [Send 1 (JObj [(''type'', JStr ''chat''), (''sessionId'', JStr ''k1-7''),
                    (''content'', JStr ''hello''), (''timestamp'', JStr ''T'')]),
      SaveChatMessage ''k1'' (Some (JStr ''hello''))]"
proof -
  have h1: "reg12 = fst (run Map.empty
      [Connection req1 1 11 5 7 CallReturns, Connection req2 2 12 6 8 CallReturns])"
    by (simp only: reg12_def)
  have h2: "get_prop chat1 ''sessionId'' = Inr (Some (JStr ''k1-7''))"
    by (simp add: chat1_def)
  have h3: "reg12 ''k1-7'' \<noteq> None" by (simp add: reg12_k1)
  have h4: "get_prop chat1 ''type'' = Inr (Some (JStr ''chat''))"
    by (simp add: chat1_def)
  from chat_echo_same_socket [OF h1 h2 h3 h4, of conn1 "''T''" SaveRejected]
  show ?thesis
    by (simp add: chat1_def echo_frame_def conn1_def new_connection_def request_deviceId_def
        request_ip_def req1_def show_nat_digit digit_char_def)
qed


lemma conn1_fields:
  "c_ws conn1 = 1" "c_sessionId conn1 = ''k1-7''" "c_deviceId conn1 = ''k1''"
  "c_ip conn1 = ''10.0.0.1''"
  by (simp_all add: conn1_def new_connection_def request_deviceId_def request_ip_def req1_def
      show_nat_digit digit_char_def)

lemma conn2_fields:
  "c_ws conn2 = 2" "c_sessionId conn2 = ''k2-8''" "c_deviceId conn2 = ''k2''"
  "c_ip conn2 = ''10.0.0.2''"
  by (simp_all add: conn2_def new_connection_def request_deviceId_def request_ip_def req2_def
      show_nat_digit digit_char_def)

lemma reg1_k1: "reg1 ''k1-7'' = Some \<lparr> ws = 1, server = 11, ip = ''10.0.0.1'', deviceId = ''k1'' \<rparr>"
  by (simp add: reg1_def on_connection_def new_connection_def request_deviceId_def
      request_ip_def req1_def show_nat_digit digit_char_def Let_def)

text \<open>
  C9. A frame that does not parse is logged and dropped: nothing is sent, the socket is
  not closed, the registry is unchanged, and the frames that follow are processed as if
  the malformed one had not arrived (but for the log entry).
\<close>

theorem malformed_frame_dropped:
  "on_message reg c stamp sv None = [ConsoleError SyntaxError]
   \<and> sends (on_message reg c stamp sv None) = []
   \<and> closes (on_message reg c stamp sv None) = []
   \<and> fst (step reg (Message c stamp sv None)) = reg
   \<and> run reg (Message c stamp sv None # es) =
        (fst (run reg es), ConsoleError SyntaxError # snd (run reg es))"
  by (simp add: on_message_def sends_def closes_def split_beta)

theorem malformed_frame_dropped_witness:
  "run reg1 [Message conn1 ''T'' SaveFulfilled None, Message conn1 ''T'' SaveFulfilled (Some subscribe1)]
   = (reg1,
      [ConsoleError SyntaxError,
       ConsoleLog ''Client subscribed to'' (Some (JStr ''alerts'')),
       Send 1 (JObj [(''type'', JStr ''subscribed''), (''channel'', JStr ''alerts'')])])"
proof -
  have r: "run reg1 [Message conn1 ''T'' SaveFulfilled (Some subscribe1)] =
      (reg1, [ConsoleLog ''Client subscribed to'' (Some (JStr ''alerts'')),
       Send 1 (JObj [(''type'', JStr ''subscribed''), (''channel'', JStr ''alerts'')])])"
    by (simp add: on_message_def route_def registry_has_def handleSubscription_def
        subscribe1_def reg1_k1 conn1_fields)
  from malformed_frame_dropped [of reg1 conn1 "''T''" SaveFulfilled
      "[Message conn1 ''T'' SaveFulfilled (Some subscribe1)]"]
  show ?thesis by (simp only: r fst_conv snd_conv)
qed

text \<open>
  C10. The session check accepts the session id of any registered session: a \<open>chat\<close>
  frame that names another live connection's session is dispatched, not closed, and the
  echo goes to the receiving socket under that socket's own session id, not the one the
  frame named; nothing is sent to the other connection's socket.
\<close>

theorem foreign_session_id_accepted:
  assumes reach: "reg = fst (run Map.empty evs)"
    and sid: "get_prop parsed ''sessionId'' = Inr (Some (JStr s))"
    and other: "reg s = Some other"
    and foreign: "s \<noteq> c_sessionId c"
    and sock: "ws other \<noteq> c_ws c"
    and ty: "get_prop parsed ''type'' = Inr (Some (JStr ''chat''))"
  shows "sends (on_message reg c stamp sv (Some parsed)) =
           [Send (c_ws c) (echo_frame c stamp parsed)]
       \<and> closes (on_message reg c stamp sv (Some parsed)) = []
       \<and> get_prop (echo_frame c stamp parsed) ''sessionId'' = Inr (Some (JStr (c_sessionId c)))
       \<and> get_prop (echo_frame c stamp parsed) ''sessionId'' \<noteq> get_prop parsed ''sessionId''
       \<and> Send (ws other) frame \<notin> set (on_message reg c stamp sv (Some parsed))"
proof -
  obtain kvs where p: "parsed = JObj kvs"
    using sid by (rule get_prop_object)
  have "fst (run Map.empty evs) [] = None" by (rule run_keys_nonempty) simp
  then have ne: "s \<noteq> []" using reach other by auto
  have "reg s \<noteq> None" using other by simp
  with sid ne obtain content where
    m: "on_message reg c stamp sv (Some parsed) =
         [Send (c_ws c) (echo_frame c stamp parsed), SaveChatMessage (c_deviceId c) content]
         @ (if sv = SaveThrows then [ConsoleError StorageError] else [])"
    using ty chat_dispatch [of parsed s reg c stamp sv] by blast
  have e: "get_prop (echo_frame c stamp parsed) ''sessionId'' = Inr (Some (JStr (c_sessionId c)))"
    using p by (rule echo_frame_props)
  have "sends (on_message reg c stamp sv (Some parsed)) =
           [Send (c_ws c) (echo_frame c stamp parsed)]"
    unfolding m by (simp add: sends_def)
  moreover have "closes (on_message reg c stamp sv (Some parsed)) = []"
    unfolding m by (simp add: closes_def)
  moreover have "get_prop (echo_frame c stamp parsed) ''sessionId'' \<noteq> get_prop parsed ''sessionId''"
    using e sid foreign by simp
  moreover have "Send (ws other) frame \<notin> set (on_message reg c stamp sv (Some parsed))"
    unfolding m using sock by auto
  ultimately show ?thesis using e by blast
qed

theorem foreign_session_id_accepted_witness:
  "reg12 ''k1-7'' = Some \<lparr> ws = 1, server = 11, ip = ''10.0.0.1'', deviceId = ''k1'' \<rparr>
   \<and> c_ws conn2 = 2 \<and> c_sessionId conn2 = ''k2-8''
   \<and> sends (on_message reg12 conn2 ''T'' SaveFulfilled (Some chat1)) =
       [Send 2 (JObj [(''type'', JStr ''chat''), (''sessionId'', JStr ''k2-8''),
                      (''content'', JStr ''hello''), (''timestamp'', JStr ''T'')])]
   \<and> closes (on_message reg12 conn2 ''T'' SaveFulfilled (Some chat1)) = []"
proof -
  have h1: "reg12 = fst (run Map.empty
      [Connection req1 1 11 5 7 CallReturns, Connection req2 2 12 6 8 CallReturns])"
    by (simp only: reg12_def)
  have h2: "get_prop chat1 ''sessionId'' = Inr (Some (JStr ''k1-7''))"
    by (simp add: chat1_def)
  have h3: "reg12 ''k1-7'' = Some \<lparr> ws = 1, server = 11, ip = ''10.0.0.1'', deviceId = ''k1'' \<rparr>"
    by (rule reg12_k1)
  have h4: "''k1-7'' \<noteq> c_sessionId conn2" by (simp add: conn2_fields)
  have h5: "ws \<lparr> ws = 1, server = 11, ip = ''10.0.0.1'', deviceId = ''k1'' \<rparr> \<noteq> c_ws conn2"
    by (simp add: conn2_fields)
  have h6: "get_prop chat1 ''type'' = Inr (Some (JStr ''chat''))"
    by (simp add: chat1_def)
  from foreign_session_id_accepted [OF h1 h2 h3 h4 h5 h6, of "''T''" SaveFulfilled] h3
  show ?thesis
    by (simp add: chat1_def echo_frame_def conn2_fields)
qed

text \<open>
  C2 (as the code has it). A completed handshake stores one entry in the registry,
  under the generated identifier and holding the new socket: a new session if the
  identifier is not registered yet, and otherwise in place of the session registered
  under it, so that the sessions are as many as before. Whether or not the history call
  returns, the handler has by then sent the \<open>session_init\<close> frame (session id, device id,
  remote address) and after it the \<open>connection\<close> frame, once each, and has not closed the
  socket. The \<open>history\<close> frame is sent once, on the same socket, when the history promise
  is fulfilled; while the promise is pending, and if it is rejected, no frame is sent.
\<close>

theorem connection_registers_and_greets:
  assumes "on_connection reg req sock srv t0 t1 hc = (reg', c, effs, exn)"
  shows "c_sessionId c = request_deviceId req t0 @ ''-'' @ show_nat t1
       \<and> reg' = reg(c_sessionId c \<mapsto>
           \<lparr> ws = sock, server = srv, ip = request_ip req, deviceId = request_deviceId req t0 \<rparr>)
       \<and> (reg (c_sessionId c) = None \<longrightarrow>
            c_sessionId c \<notin> dom reg \<and> dom reg' = insert (c_sessionId c) (dom reg))
       \<and> (reg (c_sessionId c) \<noteq> None \<longrightarrow> dom reg' = dom reg)
       \<and> sends effs =
            [Send sock (JObj [(''type'', JStr ''session_init''),
                              (''sessionId'', JStr (c_sessionId c)),
                              (''deviceId'', JStr (request_deviceId req t0)),
                              (''ipAddress'', JStr (request_ip req))]),
             Send sock (JObj [(''type'', JStr ''connection''),
                              (''deviceId'', JStr (request_deviceId req t0)),
                              (''message'', JStr ''Connected to Ecosense WebSocket Server'')])]
       \<and> closes effs = []
       \<and> GetChatHistory (request_deviceId req t0) \<in> set effs
       \<and> on_history c (Fulfilled h) =
            [Send sock (JObj [(''type'', JStr ''history''), (''messages'', h)])]
       \<and> sends (effs @ on_history c (Fulfilled h)) =
            [Send sock (JObj [(''type'', JStr ''session_init''),
                              (''sessionId'', JStr (c_sessionId c)),
                              (''deviceId'', JStr (request_deviceId req t0)),
                              (''ipAddress'', JStr (request_ip req))]),
             Send sock (JObj [(''type'', JStr ''connection''),
                              (''deviceId'', JStr (request_deviceId req t0)),
                              (''message'', JStr ''Connected to Ecosense WebSocket Server'')]),
             Send sock (JObj [(''type'', JStr ''history''), (''messages'', h)])]
       \<and> on_history c Pending = []
       \<and> sends (on_history c Rejected) = []"
proof -
  have c: "c = new_connection req sock t0 t1"
    and r: "reg' = reg(c_sessionId c \<mapsto>
              \<lparr> ws = sock, server = srv, ip = c_ip c, deviceId = c_deviceId c \<rparr>)"
    and e: "effs = [ConsoleLog ''WebSocket client connected'' None,
           Send sock (session_init_frame c),
           Send sock (welcome_frame c),
           GetChatHistory (c_deviceId c)]"
    using assms by (auto simp: on_connection_def Let_def)
  have f: "c_ip c = request_ip req" "c_deviceId c = request_deviceId req t0" "c_ws c = sock"
    "c_sessionId c = request_deviceId req t0 @ ''-'' @ show_nat t1"
    unfolding c by (simp_all add: new_connection_def)
  have d1: "reg (c_sessionId c) = None \<longrightarrow>
            c_sessionId c \<notin> dom reg \<and> dom reg' = insert (c_sessionId c) (dom reg)"
    unfolding r by auto
  have d2: "reg (c_sessionId c) \<noteq> None \<longrightarrow> dom reg' = dom reg"
    unfolding r by auto
  have s: "sends effs =
            [Send sock (JObj [(''type'', JStr ''session_init''),
                              (''sessionId'', JStr (c_sessionId c)),
                              (''deviceId'', JStr (request_deviceId req t0)),
                              (''ipAddress'', JStr (request_ip req))]),
             Send sock (JObj [(''type'', JStr ''connection''),
                              (''deviceId'', JStr (request_deviceId req t0)),
                              (''message'', JStr ''Connected to Ecosense WebSocket Server'')])]"
    unfolding e by (simp add: sends_def session_init_frame_def welcome_frame_def f(1,2))
  have cl: "closes effs = []" unfolding e by (simp add: closes_def)
  have g: "GetChatHistory (request_deviceId req t0) \<in> set effs"
    unfolding e by (simp add: f(2))
  have h1: "on_history c (Fulfilled h) =
            [Send sock (JObj [(''type'', JStr ''history''), (''messages'', h)])]"
    by (simp add: history_frame_def f(3))
  have h2: "on_history c Pending = []" by simp
  have h3: "sends (on_history c Rejected) = []" by (simp add: sends_def)
  have r': "reg' = reg(c_sessionId c \<mapsto>
           \<lparr> ws = sock, server = srv, ip = request_ip req, deviceId = request_deviceId req t0 \<rparr>)"
    using r by (simp only: f(1,2))
  have o: "sends (effs @ on_history c (Fulfilled h)) =
            [Send sock (JObj [(''type'', JStr ''session_init''),
                              (''sessionId'', JStr (c_sessionId c)),
                              (''deviceId'', JStr (request_deviceId req t0)),
                              (''ipAddress'', JStr (request_ip req))]),
             Send sock (JObj [(''type'', JStr ''connection''),
                              (''deviceId'', JStr (request_deviceId req t0)),
                              (''message'', JStr ''Connected to Ecosense WebSocket Server'')]),
             Send sock (JObj [(''type'', JStr ''history''), (''messages'', h)])]"
  proof -
    have "sends (effs @ on_history c (Fulfilled h)) = sends effs @ sends (on_history c (Fulfilled h))"
      by (simp add: sends_def)
    also have "sends (on_history c (Fulfilled h)) =
        [Send sock (JObj [(''type'', JStr ''history''), (''messages'', h)])]"
      unfolding h1 by (simp add: sends_def)
    finally show ?thesis unfolding s by simp
  qed
  from f(4) r' d1 d2 s cl g h1 o h2 h3 show ?thesis by blast
qed

theorem connection_registers_and_greets_witness:
  "dom (fst (on_connection Map.empty req1 1 11 5 7 CallReturns)) = {''k1-7''}
   \<and> fst (on_connection Map.empty req1 1 11 5 7 CallReturns) =
       [''k1-7'' \<mapsto> \<lparr> ws = 1, server = 11, ip = ''10.0.0.1'', deviceId = ''k1'' \<rparr>]
   \<and> sends (fst (snd (snd (on_connection Map.empty req1 1 11 5 7 CallReturns)))) =
       [Send 1 (JObj [(''type'', JStr ''session_init''), (''sessionId'', JStr ''k1-7''),
                      (''deviceId'', JStr ''k1''), (''ipAddress'', JStr ''10.0.0.1'')]),
        Send 1 (JObj [(''type'', JStr ''connection''), (''deviceId'', JStr ''k1''),
                      (''message'', JStr ''Connected to Ecosense WebSocket Server'')])]
   \<and> on_history conn1 (Fulfilled (JArr [])) =
       [Send 1 (JObj [(''type'', JStr ''history''), (''messages'', JArr [])])]"
proof -
  have h: "on_connection Map.empty req1 1 11 5 7 CallReturns =
      (fst (on_connection Map.empty req1 1 11 5 7 CallReturns), conn1,
       fst (snd (snd (on_connection Map.empty req1 1 11 5 7 CallReturns))),
       snd (snd (snd (on_connection Map.empty req1 1 11 5 7 CallReturns))))"
    by (simp add: on_connection_def conn1_def Let_def)
  have q: "request_ip req1 = ''10.0.0.1''" "request_deviceId req1 5 = ''k1''"
    by (simp_all add: request_ip_def request_deviceId_def req1_def)
  have n: "Map.empty (c_sessionId conn1) = (None :: IsolatedSession option)" by simp
  note t = connection_registers_and_greets [OF h, of "JArr []", unfolded conn1_fields q]
  from t have a: "fst (on_connection Map.empty req1 1 11 5 7 CallReturns) =
       [''k1-7'' \<mapsto> \<lparr> ws = 1, server = 11, ip = ''10.0.0.1'', deviceId = ''k1'' \<rparr>]"
    by (elim conjE)
  have b: "dom (fst (on_connection Map.empty req1 1 11 5 7 CallReturns)) = {''k1-7''}"
    unfolding a by simp
  from t a b show ?thesis by blast
qed

theorem second_handshake_adds_no_session_counterexample:
  "dom (fst (run Map.empty [Connection req1 1 11 5 7 CallReturns])) = {''k1-7''}
   \<and> dom (fst (run Map.empty
        [Connection req1 1 11 5 7 CallReturns, Connection req1 3 13 5 7 CallReturns]))
       = {''k1-7''}
   \<and> map_option ws (fst (run Map.empty
        [Connection req1 1 11 5 7 CallReturns, Connection req1 3 13 5 7 CallReturns]) ''k1-7'')
       = Some 3"
  by (simp add: on_connection_def Let_def new_connection_def request_ip_def
      request_deviceId_def req1_def show_nat_digit digit_char_def)

text \<open>
  C7 (as the code has it). Registration has no failure case: it stores the new session
  under the generated identifier whatever the registry held there, so an existing entry
  of that identifier has its socket handle replaced; the other entries are unchanged.
\<close>

theorem registration_overwrites:
  "fst (on_connection reg req sock srv t0 t1 hc) (c_sessionId (new_connection req sock t0 t1)) =
     Some \<lparr> ws = sock, server = srv, ip = request_ip req, deviceId = request_deviceId req t0 \<rparr>
   \<and> (\<forall>k. k \<noteq> c_sessionId (new_connection req sock t0 t1)
          \<longrightarrow> fst (on_connection reg req sock srv t0 t1 hc) k = reg k)"
  by (simp add: on_connection_def Let_def new_connection_def)

theorem registration_overwrites_witness:
  "reg12 ''k1-7'' = Some \<lparr> ws = 1, server = 11, ip = ''10.0.0.1'', deviceId = ''k1'' \<rparr>
   \<and> fst (on_connection reg12 req1 3 13 5 7 CallReturns) ''k1-7'' =
       Some \<lparr> ws = 3, server = 13, ip = ''10.0.0.1'', deviceId = ''k1'' \<rparr>
   \<and> fst (on_connection reg12 req1 3 13 5 7 CallReturns) ''k2-8'' = reg12 ''k2-8''"
  using registration_overwrites [of reg12 req1 3 13 5 7 CallReturns] reg12_k1
  by (simp add: new_connection_def request_ip_def request_deviceId_def req1_def
      show_nat_digit digit_char_def)

theorem registration_duplicate_counterexample:
  "reg1 ''k1-7'' = Some \<lparr> ws = 1, server = 11, ip = ''10.0.0.1'', deviceId = ''k1'' \<rparr>
   \<and> c_sessionId (fst (snd (on_connection reg1 req1 3 13 5 7 CallReturns))) = ''k1-7''
   \<and> fst (on_connection reg1 req1 3 13 5 7 CallReturns) ''k1-7'' \<noteq> reg1 ''k1-7''
   \<and> map_option ws (fst (on_connection reg1 req1 3 13 5 7 CallReturns) ''k1-7'') = Some 3"
  by (simp add: reg1_k1 on_connection_def Let_def new_connection_def request_ip_def
      request_deviceId_def req1_def show_nat_digit digit_char_def)

text \<open>
  C3, at the frame \<open>null\<close>. The frame parses, it has no \<open>sessionId\<close>, and the router does
  not close the socket: reading the property of \<open>null\<close> throws, the handler's \<open>catch\<close>
  logs the error, and nothing else happens.
\<close>

theorem null_frame_not_closed:
  "on_message reg1 conn1 ''T'' SaveFulfilled (Some JNull) = [ConsoleError TypeError]
   \<and> closes (on_message reg1 conn1 ''T'' SaveFulfilled (Some JNull)) = []"
  by (simp add: on_message_def route_def closes_def)

text \<open>Every other parsed frame that names no registered session closes the socket with
  code 1008 and reaches no handler; a frame that is dispatched names a registered
  session.\<close>

lemma invalid_session_closes:
  assumes "parsed \<noteq> JNull"
    and "\<not> (\<exists>s. get_prop parsed ''sessionId'' = Inr (Some (JStr s)) \<and> s \<noteq> [] \<and> reg s \<noteq> None)"
  shows "on_message reg c stamp sv (Some parsed) = [Close (c_ws c) 1008 ''Invalid session'']"
proof -
  obtain sid where g: "get_prop parsed ''sessionId'' = Inr sid"
    using assms(1) by (cases parsed) auto
  have "\<not> js_truthy sid \<or> \<not> registry_has reg sid"
  proof (cases sid)
    case None then show ?thesis by simp
  next
    case (Some v)
    then show ?thesis using assms(2) g
      by (cases v) (auto simp: registry_has_def)
  qed
  then show ?thesis using g by (auto simp: on_message_def route_def)
qed

text \<open>A \<open>subscribe\<close> frame whose channel has no string form is logged as an error and
  gets no confirmation.\<close>

lemma subscribe_channel_without_string_form:
  "on_message reg1 conn1 ''T'' SaveFulfilled
     (Some (JObj [(''sessionId'', JStr ''k1-7''), (''type'', JStr ''subscribe''),
                  (''channel'', JObj [(''toString'', JNum 1)])]))
   = [ConsoleError TypeError]"
  by (simp add: on_message_def route_def registry_has_def handleSubscription_def reg1_k1)

lemma close_only_when_invalid:
  assumes "closes (on_message reg c stamp sv frame) \<noteq> []"
  shows "\<exists>parsed sid. frame = Some parsed \<and> get_prop parsed ''sessionId'' = Inr sid
           \<and> (\<not> js_truthy sid \<or> \<not> registry_has reg sid)"
  using assms
  by (auto simp: on_message_def route_def handleSubscription_def closes_def
      split: option.splits sum.splits if_splits)

section \<open>Properties of the tracker\<close>

lemma cleanup_loop_portCounter:
  "portCounter (fst (cleanup_loop now visit tr)) = portCounter tr"
  by (induction now visit tr rule: cleanup_loop.induct) (auto split: option.splits)

lemma cleanup_loop_keeps_records:
  "map_of (activeConnections (fst (cleanup_loop now visit tr))) d = Some r
     \<Longrightarrow> map_of (activeConnections tr) d = Some r"
proof (induction now visit tr rule: cleanup_loop.induct)
  case (1 now tr)
  then show ?case by simp
next
  case (2 now dev conn rest tr)
  then show ?case
    by (auto simp: delete_conv' split: option.splits if_splits)
qed

lemma tracker_step_portCounter:
  "portCounter (tracker_step tr e) =
     (case e of ProcessSpawned dev w \<Rightarrow> js_succ (portCounter tr) | _ \<Rightarrow> portCounter tr)"
  by (cases e)
     (simp_all add: device_connection_def device_message_def device_socket_close_def
        device_handle_close_def createIsolatedProcess_def worker_exit_def
        cleanupInactiveDevices_def cleanup_loop_portCounter Let_def)

lemma tracker_step_keeps_records:
  assumes "map_of (activeConnections (tracker_step tr e)) d = Some r"
    and "\<forall>port http w sock t1 t2. e \<noteq> DeviceConnected d port http w sock t1 t2"
  shows "map_of (activeConnections tr) d = Some r"
proof (cases e)
  case (DeviceConnected dev port http w sock t1 t2)
  then have "dev \<noteq> d" using assms(2) by auto
  then show ?thesis using assms(1) DeviceConnected
    by (simp add: device_connection_def update_conv')
next
  case (DeviceSocketClosed dev)
  then show ?thesis using assms(1)
    by (auto simp: device_socket_close_def delete_conv' split: if_splits)
next
  case (Sweep now)
  then show ?thesis using assms(1)
    by (auto simp: cleanupInactiveDevices_def dest: cleanup_loop_keeps_records)
qed (use assms(1) in \<open>simp_all add: device_message_def device_handle_close_def
       createIsolatedProcess_def worker_exit_def Let_def\<close>)

lemma tracker_run_keeps_records:
  assumes "map_of (activeConnections (tracker_run tr es)) d = Some r"
    and "\<forall>e \<in> set es. \<forall>port http w sock t1 t2. e \<noteq> DeviceConnected d port http w sock t1 t2"
  shows "map_of (activeConnections tr) d = Some r"
  using assms
proof (induction es arbitrary: tr)
  case Nil
  then show ?case by simp
next
  case (Cons e es)
  have "map_of (activeConnections (tracker_step tr e)) d = Some r"
    using Cons.IH [of "tracker_step tr e"] Cons.prems by simp
  then show ?case using Cons.prems(2) by (intro tracker_step_keeps_records [of tr e]) auto
qed

text \<open>
  C6 (as the code has it). No field of a DeviceConnection is written after the record is
  created: a message on the device's connection is echoed and leaves the tracker as it
  was, \<open>lastActive\<close> included, and through any trace that does not connect the device
  anew, a record found under the device id is the record that was there before, with
  the same \<open>deviceId\<close>, \<open>port\<close>, \<open>connectedAt\<close> and \<open>lastActive\<close>.
\<close>

theorem device_record_never_mutated:
  assumes "map_of (activeConnections tr) d = Some r"
    and "\<forall>e \<in> set es. \<forall>port http w sock t1 t2. e \<noteq> DeviceConnected d port http w sock t1 t2"
  shows "device_message tr sock message = (tr, [SendData sock message])
       \<and> tracker_step tr (DeviceMessage sock message t) = tr
       \<and> (map_of (activeConnections (tracker_run tr es)) d = None
          \<or> map_of (activeConnections (tracker_run tr es)) d = Some r)"
proof -
  have "map_of (activeConnections (tracker_run tr es)) d = Some r'
          \<Longrightarrow> r' = r" for r'
    using tracker_run_keeps_records [OF _ assms(2), of tr r'] assms(1) by simp
  then show ?thesis
    by (cases "map_of (activeConnections (tracker_run tr es)) d")
       (simp_all add: device_message_def)
qed

lemma idle_tracker_record:
  "map_of (activeConnections idle_tracker) ''dev-a'' =
     Some \<lparr> dc_deviceId = ''dev-a'', dc_port = 4000, connectedAt = 0, lastActive = 0 \<rparr>"
  by (simp add: idle_tracker_def device_connection_def initial_tracker_def)

theorem device_record_never_mutated_witness:
  "map_of (activeConnections
      (tracker_run idle_tracker
         [DeviceMessage 23 ''ping'' 5, ProcessSpawned ''dev-b'' 41, DeviceMessage 23 ''pong'' 9]))
      ''dev-a'' =
     Some \<lparr> dc_deviceId = ''dev-a'', dc_port = 4000, connectedAt = 0, lastActive = 0 \<rparr>"
proof -
  have h: "\<forall>e \<in> set [DeviceMessage 23 ''ping'' 5, ProcessSpawned ''dev-b'' 41,
                       DeviceMessage 23 ''pong'' 9].
             \<forall>port http w sock t1 t2. e \<noteq> DeviceConnected ''dev-a'' port http w sock t1 t2"
    by simp
  have p: "map_of (activeConnections
      (tracker_run idle_tracker
         [DeviceMessage 23 ''ping'' 5, ProcessSpawned ''dev-b'' 41, DeviceMessage 23 ''pong'' 9]))
      ''dev-a'' \<noteq> None"
    by (simp add: device_message_def createIsolatedProcess_def Let_def idle_tracker_record)
  from device_record_never_mutated [OF idle_tracker_record h, of 23 "''ping''" 5]
  have "map_of (activeConnections
      (tracker_run idle_tracker
         [DeviceMessage 23 ''ping'' 5, ProcessSpawned ''dev-b'' 41, DeviceMessage 23 ''pong'' 9]))
      ''dev-a'' = None
    \<or> map_of (activeConnections
      (tracker_run idle_tracker
         [DeviceMessage 23 ''ping'' 5, ProcessSpawned ''dev-b'' 41, DeviceMessage 23 ''pong'' 9]))
      ''dev-a'' =
     Some \<lparr> dc_deviceId = ''dev-a'', dc_port = 4000, connectedAt = 0, lastActive = 0 \<rparr>"
    by (elim conjE)
  with p show ?thesis by (elim disjE) (erule notE, assumption+)
qed

theorem lastActive_not_updated_counterexample:
  "map_option ds_ws (deviceServers idle_tracker ''dev-a'') = Some (Some 23)
   \<and> map_option lastActive
       (map_of (activeConnections (tracker_step idle_tracker (DeviceMessage 23 ''ping'' 5)))
          ''dev-a'') = Some 0
   \<and> map_option lastActive
       (map_of (activeConnections (tracker_step idle_tracker (DeviceMessage 23 ''ping'' 5)))
          ''dev-a'') \<noteq> Some 5"
  by (simp add: idle_tracker_def device_connection_def initial_tracker_def device_message_def)

text \<open>
  C5, at an idle device whose server is tracked. The sweep finds the record older than
  thirty minutes, reaches \<open>deviceServers.get(deviceId)?.close()\<close>, and the call throws:
  the record stays in the tracker and nothing is closed.
\<close>

theorem idle_tracked_device_not_reaped:
  "deviceServers idle_tracker ''dev-a'' = Some \<lparr> httpServer = 21, wss = 22, ds_ws = Some 23 \<rparr>
   \<and> map_option lastActive (map_of (activeConnections idle_tracker) ''dev-a'') = Some 0
   \<and> cleanupInactiveDevices 1800001 idle_tracker = (idle_tracker, Some TypeError)
   \<and> map_of (activeConnections (fst (cleanupInactiveDevices 1800001 idle_tracker))) ''dev-a''
       \<noteq> None"
  by (simp add: cleanupInactiveDevices_def idle_tracker_def device_connection_def
      initial_tracker_def close_tracked_def)

text \<open>Where no idle record has a tracked server, the sweep does what it is meant to:
  it removes the idle records and keeps the others as they are.\<close>

lemma cleanup_loop_untracked:
  assumes "\<forall>(dev, conn) \<in> set visit. now - lastActive conn > 30 * 60 * 1000
             \<longrightarrow> deviceServers tr dev = None"
  shows "snd (cleanup_loop now visit tr) = None
       \<and> deviceServers (fst (cleanup_loop now visit tr)) = deviceServers tr
       \<and> map_of (activeConnections (fst (cleanup_loop now visit tr))) =
           (\<lambda>d. if d \<in> fst ` {(dev, conn) \<in> set visit. now - lastActive conn > 30 * 60 * 1000}
                then None else map_of (activeConnections tr) d)"
  using assms
proof (induction now visit tr rule: cleanup_loop.induct)
  case (1 now tr)
  then show ?case by simp
next
  case (2 now dev conn rest tr)
  show ?case
  proof (cases "now - lastActive conn > 30 * 60 * 1000")
    case True
    then have n: "deviceServers tr dev = None" using "2.prems" by auto
    let ?tr = "tr\<lparr> activeConnections := AList.delete dev (activeConnections tr) \<rparr>"
    have "\<forall>(dev, conn) \<in> set rest. now - lastActive conn > 30 * 60 * 1000
             \<longrightarrow> deviceServers ?tr dev = None"
      using "2.prems" by auto
    from "2.IH"(1) [OF True _ this] n True
    show ?thesis
      by (auto simp: close_tracked_def delete_conv' fun_eq_iff image_iff)
  next
    case False
    have "\<forall>(dev, conn) \<in> set rest. now - lastActive conn > 30 * 60 * 1000
             \<longrightarrow> deviceServers tr dev = None"
      using "2.prems" by auto
    from "2.IH"(2) [OF False this] False
    show ?thesis by (auto simp: fun_eq_iff image_iff)
  qed
qed

section \<open>Port allocation\<close>

lemma spawn_ports_increasing:
  "portCounter tr + length (spawn_ports tr es) \<le> 2 ^ 53
     \<Longrightarrow> sorted_wrt (<) (spawn_ports tr es) \<and> (\<forall>p \<in> set (spawn_ports tr es). portCounter tr \<le> p)"
proof (induction es arbitrary: tr)
  case Nil
  then show ?case by simp
next
  case (Cons e es)
  show ?case
  proof (cases e)
    case (ProcessSpawned dev w)
    let ?tr = "tracker_step tr e"
    have lt: "portCounter tr < 2 ^ 53" using Cons.prems ProcessSpawned by simp
    then have pc: "portCounter ?tr = portCounter tr + 1"
      using ProcessSpawned by (simp add: createIsolatedProcess_def js_succ_def Let_def)
    have "portCounter ?tr + length (spawn_ports ?tr es) \<le> 2 ^ 53"
      using Cons.prems ProcessSpawned pc by simp
    from Cons.IH [OF this] pc ProcessSpawned show ?thesis
      by (auto simp: createIsolatedProcess_def Let_def)
  next
    case (DeviceConnected dev port http w sock t1 t2)
    then have "portCounter (tracker_step tr e) = portCounter tr"
      using tracker_step_portCounter [of tr e] by simp
    with Cons.IH [of "tracker_step tr e"] Cons.prems DeviceConnected show ?thesis by simp
  next
    case (DeviceMessage sock m t)
    then have "portCounter (tracker_step tr e) = portCounter tr"
      using tracker_step_portCounter [of tr e] by simp
    with Cons.IH [of "tracker_step tr e"] Cons.prems DeviceMessage show ?thesis by simp
  next
    case (DeviceSocketClosed dev)
    then have "portCounter (tracker_step tr e) = portCounter tr"
      using tracker_step_portCounter [of tr e] by simp
    with Cons.IH [of "tracker_step tr e"] Cons.prems DeviceSocketClosed show ?thesis by simp
  next
    case (DeviceHandleClosed dev http)
    then have "portCounter (tracker_step tr e) = portCounter tr"
      using tracker_step_portCounter [of tr e] by simp
    with Cons.IH [of "tracker_step tr e"] Cons.prems DeviceHandleClosed show ?thesis by simp
  next
    case (WorkerExited dev)
    then have "portCounter (tracker_step tr e) = portCounter tr"
      using tracker_step_portCounter [of tr e] by simp
    with Cons.IH [of "tracker_step tr e"] Cons.prems WorkerExited show ?thesis by simp
  next
    case (Sweep now)
    then have "portCounter (tracker_step tr e) = portCounter tr"
      using tracker_step_portCounter [of tr e] by simp
    with Cons.IH [of "tracker_step tr e"] Cons.prems Sweep show ?thesis by simp
  qed
qed

lemma createForDevice_result:
  "fst (createForDevice srv dev http) =
     (if local_portCounter srv \<le> 65535 then Inr (local_portCounter srv) else Inl RangeError)"
  "local_portCounter (fst (snd (createForDevice srv dev http))) = js_succ (local_portCounter srv)"
  by (simp_all add: createForDevice_def Let_def)

lemma device_ports_increasing:
  "local_portCounter srv + length ds \<le> 2 ^ 53
     \<Longrightarrow> sorted_wrt (<) (device_ports srv ds) \<and> (\<forall>p \<in> set (device_ports srv ds). local_portCounter srv \<le> p)"
proof (induction srv ds rule: device_ports.induct)
  case (1 srv)
  then show ?case by simp
next
  case (2 srv dev http ds)
  let ?srv = "fst (snd (createForDevice srv dev http))"
  have lt: "local_portCounter srv < 2 ^ 53" using "2.prems" by simp
  then have pc: "local_portCounter ?srv = local_portCounter srv + 1"
    by (simp add: createForDevice_result(2) js_succ_def)
  have "local_portCounter ?srv + length ds \<le> 2 ^ 53" using "2.prems" pc by simp
  from "2.IH" [OF this] have s: "sorted_wrt (<) (device_ports ?srv ds)"
    and g: "\<And>p. p \<in> set (device_ports ?srv ds) \<Longrightarrow> local_portCounter srv < p"
    using pc by auto
  show ?case
  proof (cases "local_portCounter srv \<le> 65535")
    case True
    then have "device_ports srv ((dev, http) # ds) = local_portCounter srv # device_ports ?srv ds"
      by (simp add: createForDevice_result(1))
    then show ?thesis using s g by (auto simp: less_imp_le)
  next
    case False
    then have "device_ports srv ((dev, http) # ds) = device_ports ?srv ds"
      by (simp add: createForDevice_result(1))
    then show ?thesis using s g by (auto simp: less_imp_le)
  qed
qed

text \<open>
  C4 (as the code has it). There are two kinds of counter: the module's \<open>portCounter\<close>,
  which \<open>createIsolatedProcess\<close> draws from, and the counter local to each
  \<open>createDeviceIsolatedServer\<close> instance, which its \<open>createForDevice\<close> draws from. Each
  counter only grows (while it stays below \<open>2^53\<close>), whatever happens in between, a
  worker's exit included: the ports of the spawns of a trace are strictly increasing,
  hence pairwise different, and so are the ports of one instance's sub-servers.
\<close>

theorem ports_increase_per_counter:
  "(portCounter tr + length (spawn_ports tr es) \<le> 2 ^ 53
      \<longrightarrow> sorted_wrt (<) (spawn_ports tr es) \<and> distinct (spawn_ports tr es)
          \<and> (\<forall>p \<in> set (spawn_ports tr es). portCounter tr \<le> p))
   \<and> (local_portCounter srv + length ds \<le> 2 ^ 53
      \<longrightarrow> sorted_wrt (<) (device_ports srv ds) \<and> distinct (device_ports srv ds)
          \<and> (\<forall>p \<in> set (device_ports srv ds). local_portCounter srv \<le> p))"
  using spawn_ports_increasing [of tr es] device_ports_increasing [of srv ds]
  by (auto dest: strict_sorted_imp_sorted simp: strict_sorted_iff)

theorem ports_increase_per_counter_witness:
  "spawn_ports initial_tracker
     [ProcessSpawned ''dev-a'' 41, WorkerExited ''dev-a'', ProcessSpawned ''dev-b'' 42] =
     [3000, 3001]
   \<and> distinct (spawn_ports initial_tracker
        [ProcessSpawned ''dev-a'' 41, WorkerExited ''dev-a'', ProcessSpawned ''dev-b'' 42])
   \<and> device_ports (createDeviceIsolatedServer 0 5000) [(''dev-a'', 31), (''dev-b'', 32)] =
     [5000, 5001]
   \<and> distinct (device_ports (createDeviceIsolatedServer 0 5000) [(''dev-a'', 31), (''dev-b'', 32)])"
proof -
  have s: "spawn_ports initial_tracker
     [ProcessSpawned ''dev-a'' 41, WorkerExited ''dev-a'', ProcessSpawned ''dev-b'' 42] =
     [3000, 3001]"
    by (simp add: createIsolatedProcess_def worker_exit_def initial_tracker_def js_succ_def
        Let_def)
  have d: "device_ports (createDeviceIsolatedServer 0 5000) [(''dev-a'', 31), (''dev-b'', 32)] =
     [5000, 5001]"
    by (simp add: createForDevice_def createDeviceIsolatedServer_def js_succ_def Let_def)
  have h1: "portCounter initial_tracker + length (spawn_ports initial_tracker
     [ProcessSpawned ''dev-a'' 41, WorkerExited ''dev-a'', ProcessSpawned ''dev-b'' 42])
     \<le> 2 ^ 53"
    unfolding s by (simp add: initial_tracker_def)
  have h2: "local_portCounter (createDeviceIsolatedServer 0 5000)
      + length [(''dev-a'', 31 :: nat), (''dev-b'', 32)] \<le> 2 ^ 53"
    by (simp add: createDeviceIsolatedServer_def)
  from ports_increase_per_counter [of initial_tracker
      "[ProcessSpawned ''dev-a'' 41, WorkerExited ''dev-a'', ProcessSpawned ''dev-b'' 42]"
      "createDeviceIsolatedServer 0 5000" "[(''dev-a'', 31), (''dev-b'', 32)]"] h1 h2
  have "distinct (spawn_ports initial_tracker
        [ProcessSpawned ''dev-a'' 41, WorkerExited ''dev-a'', ProcessSpawned ''dev-b'' 42])"
    and "distinct (device_ports (createDeviceIsolatedServer 0 5000) [(''dev-a'', 31), (''dev-b'', 32)])"
    by blast+
  with s d show ?thesis by blast
qed

theorem shared_counter_counterexample:
  "fst (createForDevice (createDeviceIsolatedServer 0 3000) ''dev-a'' 31) = Inr 3000
   \<and> fst (createIsolatedProcess initial_tracker ''dev-b'' 41) = 3000
   \<and> ''dev-a'' \<noteq> ''dev-b''"
  by (simp add: createForDevice_def createDeviceIsolatedServer_def createIsolatedProcess_def
      initial_tracker_def Let_def)

section \<open>Properties of the worker\<close>

lemma indexOf_first: "x \<notin> set pre \<Longrightarrow> indexOf (pre @ x # post) x = int (length pre)"
  by (induction pre) (auto simp: Let_def)

lemma flag_value:
  assumes "args = pre @ flag # v # post" and "flag \<notin> set pre"
  shows "arg_at args (indexOf args flag + 1) = Some v"
proof -
  have "indexOf args flag = int (length pre)"
    unfolding assms(1) using assms(2) by (rule indexOf_first)
  then show ?thesis
    by (simp add: arg_at_def assms(1) nat_add_distrib nth_append)
qed

lemma digit_cases:
  assumes "d < 10"
  shows "d = 0 \<or> d = 1 \<or> d = 2 \<or> d = 3 \<or> d = 4 \<or> d = 5 \<or> d = 6 \<or> d = 7 \<or> d = 8 \<or> d = (9::nat)"
  using assms by arith

lemma digit_of_digit_char: "d < 10 \<Longrightarrow> digit_of (digit_char d) = Some d"
  by (drule digit_cases) (auto simp: digit_of_def digit_char_def)

lemma digit_char_plain:
  assumes "d < 10"
  shows "\<not> is_space (digit_char d)" and "digit_char d \<noteq> CHR ''-''" and "digit_char d \<noteq> CHR ''+''"
    and "digit_char d \<noteq> CHR ''x''" and "digit_char d \<noteq> CHR ''X''"
  using digit_cases [OF assms] by (auto simp: is_space_def digit_char_def)

lemma show_nat_chars: "c \<in> set (show_nat n) \<Longrightarrow> \<exists>d<10. c = digit_char d"
proof (induction n rule: show_nat.induct)
  case (1 n)
  show ?case
  proof (cases "n < 10")
    case True
    then show ?thesis using "1.prems" by (auto simp: show_nat.simps [of n])
  next
    case False
    then have "c \<in> set (show_nat (n div 10)) \<or> c = digit_char (n mod 10)"
      using "1.prems" by (auto simp: show_nat.simps [of n])
    then show ?thesis
    proof
      assume "c \<in> set (show_nat (n div 10))"
      then show ?thesis using "1.IH" False by simp
    next
      assume "c = digit_char (n mod 10)"
      moreover have "n mod 10 < 10" by simp
      ultimately show ?thesis by blast
    qed
  qed
qed

lemma show_nat_nonempty: "show_nat n \<noteq> []"
  by (subst show_nat.simps) simp

lemma digits_value_snoc:
  "digits_value r (z @ [c]) = digits_value r z * r + (case digit_of c of None \<Rightarrow> 0 | Some d \<Rightarrow> d)"
  by (simp add: digits_value_def)

lemma digits_value_show_nat: "digits_value 10 (show_nat n) = n"
proof (induction n rule: show_nat.induct)
  case (1 n)
  show ?case
  proof (cases "n < 10")
    case True
    then show ?thesis
      by (simp add: show_nat.simps [of n] digits_value_def digit_of_digit_char)
  next
    case False
    then have "digits_value 10 (show_nat n) = digits_value 10 (show_nat (n div 10)) * 10 + n mod 10"
      by (simp add: show_nat.simps [of n] digits_value_snoc digit_of_digit_char)
    then show ?thesis using "1.IH" False by simp
  qed
qed

lemma parseInt_show_nat:
  assumes "n < 2 ^ 53"
  shows "parseInt (Some (show_nat n)) = Finite (int n)"
proof -
  let ?s = "show_nat n"
  obtain c cs where s: "?s = c # cs" using show_nat_nonempty [of n] by (cases ?s) auto
  have dig: "\<And>x. x \<in> set ?s \<Longrightarrow> \<exists>d<10. x = digit_char d" by (rule show_nat_chars)
  obtain d where d: "d < 10" "c = digit_char d" using dig [of c] s by auto
  have "\<not> is_space c" using d digit_char_plain(1) by simp
  then have dw: "dropWhile is_space ?s = ?s" using s by simp
  have t1: "take 1 ?s \<noteq> ''-''" "take 1 ?s \<noteq> ''+''"
    using s d digit_char_plain(2,3) [of d] by auto
  have t2: "take 2 ?s \<noteq> ''0x''" "take 2 ?s \<noteq> ''0X''"
  proof -
    have "\<And>x. x \<in> set (take 2 ?s) \<Longrightarrow> x \<noteq> CHR ''x'' \<and> x \<noteq> CHR ''X''"
      using dig digit_char_plain(4,5) by (metis in_set_takeD)
    then show "take 2 ?s \<noteq> ''0x''" "take 2 ?s \<noteq> ''0X''" by fastforce+
  qed
  have "in_radix 10 x" if "x \<in> set ?s" for x
  proof -
    from dig [OF that] obtain e where "e < 10" "x = digit_char e" by blast
    then show ?thesis by (simp add: in_radix_def digit_of_digit_char)
  qed
  then have tw: "takeWhile (in_radix 10) ?s = ?s" by simp
  have t1': "take (Suc 0) ?s \<noteq> ''-''" "take (Suc 0) ?s \<noteq> ''+''"
    using t1 by simp_all
  have rd: "round_double n = Some n" using assms by (simp add: round_double_def)
  show ?thesis
    by (simp add: parseInt_def Let_def dw t1' t2 tw show_nat_nonempty digits_value_show_nat rd)
qed

lemma legal_port_show_nat:
  "n \<le> 65535 \<Longrightarrow> legal_port (parseInt (Some (show_nat n))) = Some n"
  "65535 < n \<Longrightarrow> n < 2 ^ 53 \<Longrightarrow> legal_port (parseInt (Some (show_nat n))) = None"
  by (simp_all add: parseInt_show_nat)

text \<open>Above \<open>2^53\<close> the number read is the nearest double, not the integer written.\<close>

lemma bit_length_beyond_2_53: "bit_length 9007199254740993 = 54"
  by (simp add: bit_length.simps)

lemma round_double_beyond_2_53:
  "round_double 9007199254740993 = Some 9007199254740992"
  by (simp add: round_double_def Let_def bit_length_beyond_2_53)

lemma parseInt_beyond_2_53:
  "parseInt (Some ''9007199254740993'') = Finite 9007199254740992"
  by (simp add: parseInt_def Let_def is_space_def in_radix_def digit_of_def digits_value_def
      round_double_beyond_2_53)

text \<open>
  C8 (as the code has it). The worker reads its device id from the argument after the
  first \<open>--device-id\<close> and its port by \<open>parseInt\<close> of the argument after the first
  \<open>--port\<close>. If the number read is an integer from 0 to 65535 (as the decimal rendering
  of such a port is), the worker calls \<open>listen\<close> once, with that port, and from then on
  sends every frame it receives back once, unchanged, on the socket it came from, and on
  SIGTERM closes its server and exits with code 0. If the number read is anything else,
  \<open>listen\<close> throws and the script ends there: no listener, and no worker to echo or to
  handle SIGTERM.
\<close>

theorem worker_serves_legal_port:
  assumes "drop 2 argv = pre1 @ ''--device-id'' # dev # post1" and "''--device-id'' \<notin> set pre1"
    and "drop 2 argv = pre2 @ ''--port'' # p # post2" and "''--port'' \<notin> set pre2"
  shows "(legal_port (parseInt (Some p)) = None \<longrightarrow>
            snd (worker_main argv http) = Inl RangeError
          \<and> listens (fst (worker_main argv http)) = [])
       \<and> (\<forall>n. legal_port (parseInt (Some p)) = Some n \<longrightarrow>
            (\<exists>w. snd (worker_main argv http) = Inr w
              \<and> w = \<lparr> w_deviceId = Some dev, w_port = n, w_server = http \<rparr>
              \<and> listens (fst (worker_main argv http)) = [Listen http n]
              \<and> worker_message w sock message =
                  [ConsoleLog ''Received from'' (Some (JStr message)),
                   SendData sock message,
                   ConsoleLog ''Echoed back to'' (Some (JStr dev))]
              \<and> sends (worker_message w sock message) = [SendData sock message]
              \<and> closes (worker_message w sock message) = []
              \<and> worker_sigterm w =
                  [ConsoleLog ''Terminating process for'' (Some (JStr dev)),
                   ServerClose http, Exit 0]))
       \<and> (\<forall>m. p = show_nat m \<and> m \<le> 65535 \<longrightarrow> legal_port (parseInt (Some p)) = Some m)"
proof -
  have a: "arg_at (drop 2 argv) (indexOf (drop 2 argv) ''--device-id'' + 1) = Some dev"
    using assms(1,2) by (rule flag_value)
  have b: "arg_at (drop 2 argv) (indexOf (drop 2 argv) ''--port'' + 1) = Some p"
    using assms(3,4) by (rule flag_value)
  have m: "worker_main argv http =
      (case legal_port (parseInt (Some p)) of
         None \<Rightarrow> ([ConsoleLog ''Starting isolated process for'' (Some (JStr dev))],
                  Inl RangeError)
       | Some q \<Rightarrow> ([ConsoleLog ''Starting isolated process for'' (Some (JStr dev)),
                     Listen http q],
                    Inr \<lparr> w_deviceId = Some dev, w_port = q, w_server = http \<rparr>))"
    by (simp add: worker_main_def Let_def a b split: option.split)
  have c1: "legal_port (parseInt (Some p)) = None \<longrightarrow>
            snd (worker_main argv http) = Inl RangeError
          \<and> listens (fst (worker_main argv http)) = []"
    unfolding m by (simp add: listens_def)
  have c2: "\<forall>n. legal_port (parseInt (Some p)) = Some n \<longrightarrow>
            (\<exists>w. snd (worker_main argv http) = Inr w
              \<and> w = \<lparr> w_deviceId = Some dev, w_port = n, w_server = http \<rparr>
              \<and> listens (fst (worker_main argv http)) = [Listen http n]
              \<and> worker_message w sock message =
                  [ConsoleLog ''Received from'' (Some (JStr message)),
                   SendData sock message,
                   ConsoleLog ''Echoed back to'' (Some (JStr dev))]
              \<and> sends (worker_message w sock message) = [SendData sock message]
              \<and> closes (worker_message w sock message) = []
              \<and> worker_sigterm w =
                  [ConsoleLog ''Terminating process for'' (Some (JStr dev)),
                   ServerClose http, Exit 0])"
    unfolding m
    by (simp add: listens_def sends_def closes_def worker_message_def worker_sigterm_def)
  have c3: "\<forall>m. p = show_nat m \<and> m \<le> 65535 \<longrightarrow> legal_port (parseInt (Some p)) = Some m"
    by (simp add: legal_port_show_nat(1))
  from c1 c2 c3 show ?thesis by blast
qed

theorem worker_serves_legal_port_witness:
  "snd (snd (createIsolatedProcess initial_tracker ''dev-a'' 41)) =
     [Fork [''--device-id'', ''dev-a'', ''--port'', show_nat 3000]]
   \<and> snd (worker_main [''node'', ''worker.js'', ''--device-id'', ''dev-a'', ''--port'', show_nat 3000] 51)
       = Inr \<lparr> w_deviceId = Some ''dev-a'', w_port = 3000, w_server = 51 \<rparr>
   \<and> listens (fst (worker_main
        [''node'', ''worker.js'', ''--device-id'', ''dev-a'', ''--port'', show_nat 3000] 51))
       = [Listen 51 3000]
   \<and> sends (worker_message \<lparr> w_deviceId = Some ''dev-a'', w_port = 3000, w_server = 51 \<rparr>
        61 ''ping'') = [SendData 61 ''ping'']
   \<and> worker_sigterm \<lparr> w_deviceId = Some ''dev-a'', w_port = 3000, w_server = 51 \<rparr>
       = [ConsoleLog ''Terminating process for'' (Some (JStr ''dev-a'')), ServerClose 51, Exit 0]"
proof -
  have h1: "drop 2 [''node'', ''worker.js'', ''--device-id'', ''dev-a'', ''--port'', show_nat 3000]
      = [] @ ''--device-id'' # ''dev-a'' # [''--port'', show_nat 3000]"
    by simp
  have h2: "''--device-id'' \<notin> set []" by simp
  have h3: "drop 2 [''node'', ''worker.js'', ''--device-id'', ''dev-a'', ''--port'', show_nat 3000]
      = [''--device-id'', ''dev-a''] @ ''--port'' # show_nat 3000 # []"
    by simp
  have h4: "''--port'' \<notin> set [''--device-id'', ''dev-a'']" by simp
  have f: "snd (snd (createIsolatedProcess initial_tracker ''dev-a'' 41)) =
     [Fork [''--device-id'', ''dev-a'', ''--port'', show_nat 3000]]"
    by (simp add: createIsolatedProcess_def initial_tracker_def Let_def)
  have l: "legal_port (parseInt (Some (show_nat 3000))) = Some 3000"
    by (simp add: legal_port_show_nat(1))
  note t = worker_serves_legal_port [OF h1 h2 h3 h4, of 51 61 "''ping''"]
  from t have "\<forall>n. legal_port (parseInt (Some (show_nat 3000))) = Some n \<longrightarrow>
            (\<exists>w. snd (worker_main
                [''node'', ''worker.js'', ''--device-id'', ''dev-a'', ''--port'', show_nat 3000] 51)
                  = Inr w
              \<and> w = \<lparr> w_deviceId = Some ''dev-a'', w_port = n, w_server = 51 \<rparr>
              \<and> listens (fst (worker_main
                [''node'', ''worker.js'', ''--device-id'', ''dev-a'', ''--port'', show_nat 3000] 51))
                  = [Listen 51 n]
              \<and> worker_message w 61 ''ping'' =
                  [ConsoleLog ''Received from'' (Some (JStr ''ping'')),
                   SendData 61 ''ping'',
                   ConsoleLog ''Echoed back to'' (Some (JStr ''dev-a''))]
              \<and> sends (worker_message w 61 ''ping'') = [SendData 61 ''ping'']
              \<and> closes (worker_message w 61 ''ping'') = []
              \<and> worker_sigterm w =
                  [ConsoleLog ''Terminating process for'' (Some (JStr ''dev-a'')),
                   ServerClose 51, Exit 0])"
    by (elim conjE)
  with l f show ?thesis by blast
qed

theorem worker_illegal_port_counterexample:
  "snd (snd (createIsolatedProcess (initial_tracker\<lparr> portCounter := 65536 \<rparr>) ''dev-a'' 41)) =
       [Fork [''--device-id'', ''dev-a'', ''--port'', show_nat 65536]]
   \<and> worker_main [''node'', ''worker.js'', ''--device-id'', ''dev-a'', ''--port'', show_nat 65536] 51
       = ([ConsoleLog ''Starting isolated process for'' (Some (JStr ''dev-a''))], Inl RangeError)
   \<and> listens (fst (worker_main
        [''node'', ''worker.js'', ''--device-id'', ''dev-a'', ''--port'', show_nat 65536] 51)) = []"
proof -
  have l: "legal_port (parseInt (Some (show_nat 65536))) = None"
    by (simp add: legal_port_show_nat(2))
  have w: "worker_main [''node'', ''worker.js'', ''--device-id'', ''dev-a'', ''--port'', show_nat 65536] 51
       = ([ConsoleLog ''Starting isolated process for'' (Some (JStr ''dev-a''))], Inl RangeError)"
    by (simp add: worker_main_def Let_def arg_at_def l)
  show ?thesis
    unfolding w
    by (simp add: createIsolatedProcess_def initial_tracker_def Let_def listens_def)
qed

text \<open>A device id that is itself the string \<open>--port\<close> shifts the worker's reading of the
  port: the argument after the first \<open>--port\<close> is then the flag, the port is \<open>NaN\<close>, and
  \<open>listen\<close> throws.\<close>

lemma worker_port_flag_as_device_id:
  "snd (worker_main [''node'', ''worker.js'', ''--device-id'', ''--port'', ''--port'', ''3000''] 51)
     = Inl RangeError"
  by (simp add: worker_main_def Let_def arg_at_def parseInt_def is_space_def in_radix_def
      digit_of_def)

end
